theory Spec2Isabelle
  imports Main "HOL-Library.Word"
begin

section \<open>Data model of the generated CounterC machine\<close>

text \<open>
  A \<^verbatim>\<open>struct LLFSMState *\<close> is an address or \<^verbatim>\<open>NULL\<close>; \<^verbatim>\<open>NULL\<close> is \<open>None\<close>.
\<close>

type_synonym state_ptr = "nat option"

abbreviation NULL :: "'a option" where
  "NULL \<equiv> None"

text \<open>
  The five states of the machine, one per \<^verbatim>\<open>State_*.h\<close> header, and the functions
  each header declares: \<^verbatim>\<open>fsm_counterc_<state>_check_transitions\<close> and the five
  actions \<^verbatim>\<open>fsm_counterc_<state>_on_entry\<close> ... \<^verbatim>\<open>_on_resume\<close>. A function pointer
  is modelled by the symbol of the function it points to, so that the \<^verbatim>\<open>==\<close> of
  the validators is decidable equality.
\<close>

datatype state_name = Initial | InitialPseudoState | CountUp | Print | SUSPENDED

datatype action = On_entry | On_exit | Internal | On_suspend | On_resume

datatype check_fn = Check_transitions state_name

datatype action_fn = Action state_name action

text \<open>\<^verbatim>\<open>struct FSMCounterC_State_<name>\<close>: the six function pointers of a state.\<close>

record LLFSMState =
  check_transitions :: check_fn
  on_entry :: action_fn
  on_exit :: action_fn
  internal :: action_fn
  on_suspend :: action_fn
  on_resume :: action_fn

text \<open>
  \<^verbatim>\<open>struct Machine_CounterC\<close>. \<^verbatim>\<open>uintptr_t\<close> is taken as 64 bits wide. The field
  \<open>variables\<close> stands for the members contributed by the \<^verbatim>\<open>*_Variables.h\<close>
  includes, which are not part of the engine.
\<close>

record 'v Machine_CounterC =
  current_state :: state_ptr
  previous_state :: state_ptr
  state_time :: "64 word"
  suspend_state :: state_ptr
  resume_state :: state_ptr
  states :: "state_ptr list"
  variables :: 'v

definition MACHINE_COUNTERC_NUMBER_OF_STATES :: nat where
  "MACHINE_COUNTERC_NUMBER_OF_STATES = 5"

definition MACHINE_COUNTERC_IS_SUSPENSIBLE :: bool where
  "MACHINE_COUNTERC_IS_SUSPENSIBLE = True"

text \<open>The array \<^verbatim>\<open>states\<close> has exactly \<^verbatim>\<open>MACHINE_COUNTERC_NUMBER_OF_STATES\<close> slots.\<close>

definition states_array_ok :: "'v Machine_CounterC \<Rightarrow> bool" where
  "states_array_ok machine \<longleftrightarrow> length (states machine) = MACHINE_COUNTERC_NUMBER_OF_STATES"

section \<open>Machine_CounterC.h and Machine_CounterC.c\<close>

text \<open>
  \<^verbatim>\<open>#define RESTART(m) (((m)->previous_state = (m)->current_state) &&
                         ((m)->current_state = (m)->states[0]))\<close>
  The macro is an expression: its value is returned with the updated machine. The
  right operand of \<^verbatim>\<open>&&\<close> is evaluated only when the left assignment yields a
  non-null pointer.
\<close>

definition RESTART :: "'v Machine_CounterC \<Rightarrow> bool \<times> 'v Machine_CounterC" where
  "RESTART m =
     (let m1 = m\<lparr>previous_state := current_state m\<rparr> in
      if previous_state m1 \<noteq> NULL then
        (let m2 = m1\<lparr>current_state := states m1 ! 0\<rparr> in (current_state m2 \<noteq> NULL, m2))
      else (False, m1))"

text \<open>\<^verbatim>\<open>#define GET_TIME() (machine->state_time + 1)\<close>, in \<^verbatim>\<open>uintptr_t\<close> arithmetic.\<close>

definition GET_TIME :: "'v Machine_CounterC \<Rightarrow> 64 word" where
  "GET_TIME machine = state_time machine + 1"

definition fsm_counterc_init :: "'v Machine_CounterC \<Rightarrow> 'v Machine_CounterC" where
  "fsm_counterc_init machine =
     machine\<lparr>current_state := states machine ! 0,
             previous_state := NULL,
             state_time := 0,
             suspend_state := states machine ! 4,
             resume_state := NULL\<rparr>"

text \<open>
  \<^verbatim>\<open>return machine->current_state != NULL && true; // FIXME: check states\<close>
\<close>

definition fsm_counterc_validate :: "'v Machine_CounterC \<Rightarrow> bool" where
  "fsm_counterc_validate machine \<longleftrightarrow> current_state machine \<noteq> NULL \<and> True"

section \<open>State_CountUp.c and State_Initial.c\<close>

definition fsm_counterc_countup_init :: "LLFSMState \<Rightarrow> LLFSMState" where
  "fsm_counterc_countup_init state =
     state\<lparr>check_transitions := Check_transitions CountUp,
           on_entry := Action CountUp On_entry,
           on_exit := Action CountUp On_exit,
           internal := Action CountUp Internal,
           on_suspend := Action CountUp On_suspend,
           on_resume := Action CountUp On_resume\<rparr>"

definition fsm_counterc_countup_validate :: "'v Machine_CounterC \<Rightarrow> LLFSMState \<Rightarrow> bool" where
  "fsm_counterc_countup_validate machine state \<longleftrightarrow>
     check_transitions state = Check_transitions CountUp \<and>
     on_entry state = Action CountUp On_entry \<and>
     on_exit state = Action CountUp On_exit \<and>
     internal state = Action CountUp Internal \<and>
     on_suspend state = Action CountUp On_suspend \<and>
     on_resume state = Action CountUp On_resume"

text \<open>
  The guard of the transition is the expression included from
  \<^verbatim>\<open>State_CountUp_Transition_0.expr\<close>; it is a parameter \<open>expr\<close> over the machine.
\<close>

definition fsm_counterc_countup_check_transitions ::
    "('v Machine_CounterC \<Rightarrow> bool) \<Rightarrow> 'v Machine_CounterC \<Rightarrow> state_ptr" where
  "fsm_counterc_countup_check_transitions expr machine =
     (if expr machine then states machine ! 3 else NULL)"

definition fsm_counterc_initial_init :: "LLFSMState \<Rightarrow> LLFSMState" where
  "fsm_counterc_initial_init state =
     state\<lparr>check_transitions := Check_transitions Initial,
           on_entry := Action Initial On_entry,
           on_exit := Action Initial On_exit,
           internal := Action Initial Internal,
           on_suspend := Action Initial On_suspend,
           on_resume := Action Initial On_resume\<rparr>"

definition fsm_counterc_initial_validate :: "'v Machine_CounterC \<Rightarrow> LLFSMState \<Rightarrow> bool" where
  "fsm_counterc_initial_validate machine state \<longleftrightarrow>
     check_transitions state = Check_transitions Initial \<and>
     on_entry state = Action Initial On_entry \<and>
     on_exit state = Action Initial On_exit \<and>
     internal state = Action Initial Internal \<and>
     on_suspend state = Action Initial On_suspend \<and>
     on_resume state = Action Initial On_resume"

definition fsm_counterc_initial_check_transitions ::
    "('v Machine_CounterC \<Rightarrow> bool) \<Rightarrow> 'v Machine_CounterC \<Rightarrow> state_ptr" where
  "fsm_counterc_initial_check_transitions expr machine =
     (if expr machine then states machine ! 2 else NULL)"

section \<open>Counter.machine: the C++ representation\<close>

text \<open>\<^verbatim>\<open>Counter::numberOfStates()\<close>, the size of \<^verbatim>\<open>_states\<close>.\<close>

definition Counter_numberOfStates :: int where
  "Counter_numberOfStates = 5"

text \<open>\<^verbatim>\<open>CountUp::numberOfTransitions()\<close>, the size of \<^verbatim>\<open>_transitions\<close>.\<close>

definition CountUp_numberOfTransitions :: int where
  "CountUp_numberOfTransitions = 1"

text \<open>\<^verbatim>\<open>Transition_0(int toState = 3): CLTransition(toState)\<close>: the default target.\<close>

definition CountUp_Transition_0_toState :: int where
  "CountUp_Transition_0_toState = 3"

section \<open>The execution engine\<close>

text \<open>
  Modelled from the spec: a Transition, "an ordered guard predicate plus a
  target-state identifier", the target being the index of the destination state in
  the state table. The generated C has no such structure: its generator, which is
  not among the sources, unrolls each list into a \<^verbatim>\<open>check_transitions\<close> function.
\<close>

record 'v Transition =
  guard :: "'v Machine_CounterC \<Rightarrow> bool"
  targetState :: nat

text \<open>
  The bodies of the generated functions are included from files that are not part
  of the sources: the guard expressions (\<^verbatim>\<open>State_<name>_Transition_<k>.expr\<close>) and
  the action bodies (\<^verbatim>\<open>State_<name>_<Action>.mm\<close>). They are parameters of the
  model, as are the transition lists of the three states whose C files are absent.
  Guards read the machine; an action body reads the machine and updates the
  variables only (an action that restarts the machine is \<open>RESTART\<close> itself).
\<close>

record 'v fragments =
  expr :: "state_name \<Rightarrow> 'v Machine_CounterC \<Rightarrow> bool"
  transitions :: "state_name \<Rightarrow> 'v Transition list"
  mm :: "state_name \<Rightarrow> action \<Rightarrow> 'v Machine_CounterC \<Rightarrow> 'v"

text \<open>
  Modelled from the spec: the generic scan of a state's transition list, which the
  generator (not among the sources) unrolls into each \<^verbatim>\<open>check_transitions\<close>
  function. "Scan \<open>currentState.transitions\<close> in ascending order; evaluate each
  \<open>guard\<close>; return the \<open>targetState\<close> of the first guard that evaluates true, or
  none if all are false."
\<close>

fun checkTransitions :: "'v Transition list \<Rightarrow> 'v Machine_CounterC \<Rightarrow> nat option" where
  "checkTransitions [] machine = None"
| "checkTransitions (t # ts) machine =
     (if guard t machine then Some (targetState t) else checkTransitions ts machine)"

text \<open>
  Modelled from the spec: the state pointer that a target index stands for, as the
  unrolled C returns it (\<^verbatim>\<open>machine->states[i]\<close>); no target is \<^verbatim>\<open>NULL\<close>. An index
  outside the table, which the spec rejects at build time, yields no target.
\<close>

definition target_ptr :: "'v Machine_CounterC \<Rightarrow> nat option \<Rightarrow> state_ptr" where
  "target_ptr machine t =
     (case t of
        None \<Rightarrow> NULL
      | Some i \<Rightarrow> if i < length (states machine) then states machine ! i else NULL)"

text \<open>
  The transition list of each state. For \<open>Initial\<close> and \<open>CountUp\<close> it is read off
  the C functions above; the C files of the other three states are absent, and their
  lists are taken from the parameter.
\<close>

fun transitions_of :: "'v fragments \<Rightarrow> state_name \<Rightarrow> 'v Transition list" where
  "transitions_of f Initial = [\<lparr>guard = expr f Initial, targetState = 2\<rparr>]"
| "transitions_of f CountUp = [\<lparr>guard = expr f CountUp, targetState = 3\<rparr>]"
| "transitions_of f s = transitions f s"

text \<open>
  Modelled from the spec: the engine's call through \<^verbatim>\<open>state->check_transitions\<close>.
  The pointers of \<open>Initial\<close> and \<open>CountUp\<close> lead to the C functions above; for the
  other three states, whose C files are absent, the call is the generic scan.
\<close>

fun call_check :: "'v fragments \<Rightarrow> check_fn \<Rightarrow> 'v Machine_CounterC \<Rightarrow> state_ptr" where
  "call_check f (Check_transitions Initial) machine =
     fsm_counterc_initial_check_transitions (expr f Initial) machine"
| "call_check f (Check_transitions CountUp) machine =
     fsm_counterc_countup_check_transitions (expr f CountUp) machine"
| "call_check f (Check_transitions s) machine =
     target_ptr machine (checkTransitions (transitions f s) machine)"

text \<open>
  Modelled from the spec: the engine's call through one of the five action pointers
  of a state; the body of the function called is the fragment of that name.
\<close>

fun call_action :: "'v fragments \<Rightarrow> action_fn \<Rightarrow> 'v Machine_CounterC \<Rightarrow> 'v Machine_CounterC" where
  "call_action f (Action s a) machine = machine\<lparr>variables := mm f s a machine\<rparr>"

text \<open>
  Modelled from the spec: the conditions of its error taxonomy. \<open>NullState\<close> is
  added for the dereference of a null or dangling state pointer, which the spec
  leaves to \<open>validate\<close> and which is undefined behaviour in C.
\<close>

datatype error = InvalidDefinition | UnsupportedOperation | InvalidState | NullState

text \<open>The state structures, by address.\<close>

type_synonym store = "nat \<Rightarrow> LLFSMState option"

text \<open>A machine together with the log of the actions invoked on it so far.\<close>

type_synonym 'v run = "'v Machine_CounterC \<times> action_fn list"

text \<open>
  The operations \<open>step()\<close>, \<open>suspend()\<close> and \<open>resume()\<close> of the engine are not among
  the sources, which hold only generated machines; the definitions below follow
  sections 4.1 and 4.2 of the spec, on the C machine structure. Each returns the
  error it reports, if any, and the machine and action log it leaves behind.
\<close>

text \<open>
  Modelled from the spec: step 3 of \<open>step()\<close>, missing from the sources. No
  transition fired; run \<open>internal\<close>, then \<open>stateTime := stateTime + 1\<close>.
\<close>

definition step_stay ::
    "'v fragments \<Rightarrow> LLFSMState \<Rightarrow> 'v run \<Rightarrow> error option \<times> 'v run" where
  "step_stay f s r =
     (let m1 = call_action f (internal s) (fst r)
      in (None, (m1\<lparr>state_time := state_time m1 + 1\<rparr>, snd r @ [internal s])))"

text \<open>
  Modelled from the spec: step 2 of \<open>step()\<close>, missing from the sources. \<open>onExit\<close>
  of the current state; \<open>previousState := currentState\<close>, \<open>currentState := target\<close>,
  \<open>stateTime := 0\<close>; \<open>onEntry\<close> of the new current state.
\<close>

definition step_fire ::
    "'v fragments \<Rightarrow> store \<Rightarrow> LLFSMState \<Rightarrow> nat \<Rightarrow> 'v run \<Rightarrow> error option \<times> 'v run" where
  "step_fire f h s q r =
     (let m1 = call_action f (on_exit s) (fst r);
          m2 = m1\<lparr>previous_state := current_state m1, current_state := Some q,
                  state_time := 0\<rparr>
      in case h q of
           None \<Rightarrow> (Some NullState, (m2, snd r @ [on_exit s]))
         | Some s' \<Rightarrow> (None, (call_action f (on_entry s') m2, snd r @ [on_exit s, on_entry s'])))"

text \<open>
  Modelled from the spec: \<open>step()\<close>, missing from the sources. A no-op while
  suspended (\<open>resumeState\<close> is set); otherwise step 1 calls \<open>checkTransitions\<close> of the
  current state, and a target other than the current state fires.
\<close>

definition step :: "'v fragments \<Rightarrow> store \<Rightarrow> 'v run \<Rightarrow> error option \<times> 'v run" where
  "step f h r =
     (if resume_state (fst r) \<noteq> NULL then (None, r)
      else
        (case current_state (fst r) of
           None \<Rightarrow> (Some NullState, r)
         | Some p \<Rightarrow>
            (case h p of
               None \<Rightarrow> (Some NullState, r)
             | Some s \<Rightarrow>
                (case call_check f (check_transitions s) (fst r) of
                   None \<Rightarrow> step_stay f s r
                 | Some q \<Rightarrow> if q \<noteq> p then step_fire f h s q r else step_stay f s r))))"

text \<open>
  Modelled from the spec: \<open>suspend()\<close>, missing from the sources.
  \<open>UnsupportedOperation\<close> without a suspend state; a no-op when already suspended; otherwise \<open>onSuspend\<close> of the state being left,
  \<open>resumeState := currentState\<close>, \<open>currentState := suspendState\<close>, \<open>stateTime := 0\<close>.
\<close>

definition suspend :: "'v fragments \<Rightarrow> store \<Rightarrow> 'v run \<Rightarrow> error option \<times> 'v run" where
  "suspend f h r =
     (if suspend_state (fst r) = NULL then (Some UnsupportedOperation, r)
      else if resume_state (fst r) \<noteq> NULL then (None, r)
      else
        (case current_state (fst r) of
           None \<Rightarrow> (Some NullState, r)
         | Some p \<Rightarrow>
            (case h p of
               None \<Rightarrow> (Some NullState, r)
             | Some s \<Rightarrow>
                (let m1 = call_action f (on_suspend s) (fst r);
                     m2 = m1\<lparr>resume_state := current_state m1\<rparr>;
                     m3 = m2\<lparr>current_state := suspend_state m2, state_time := 0\<rparr>
                 in (None, (m3, snd r @ [on_suspend s]))))))"

text \<open>
  Modelled from the spec: \<open>resume()\<close>, missing from the sources. \<open>InvalidState\<close>
  when \<open>resumeState\<close> is none; otherwise
  \<open>currentState := resumeState\<close>, \<open>resumeState := none\<close>, \<open>stateTime := 0\<close>, then
  \<open>onResume\<close> of the current state.
\<close>

definition resume :: "'v fragments \<Rightarrow> store \<Rightarrow> 'v run \<Rightarrow> error option \<times> 'v run" where
  "resume f h r =
     (case resume_state (fst r) of
        None \<Rightarrow> (Some InvalidState, r)
      | Some q \<Rightarrow>
         (let m1 = (fst r)\<lparr>current_state := Some q, resume_state := NULL, state_time := 0\<rparr>
          in case h q of
               None \<Rightarrow> (Some NullState, (m1, snd r))
             | Some s \<Rightarrow> (None, (call_action f (on_resume s) m1, snd r @ [on_resume s]))))"

text \<open>
  Modelled from the spec: the host scheduler's part, \<open>n\<close> calls of \<open>step()\<close> in a
  row on one machine; a run stops at the first error.
\<close>

fun run_steps :: "nat \<Rightarrow> 'v fragments \<Rightarrow> store \<Rightarrow> 'v run \<Rightarrow> error option \<times> 'v run" where
  "run_steps 0 f h r = (None, r)"
| "run_steps (Suc n) f h r =
     (case step f h r of
        (None, r') \<Rightarrow> run_steps n f h r'
      | (Some e, r') \<Rightarrow> (Some e, r'))"

section \<open>A concrete machine\<close>

text \<open>
  Modelled from the spec: the dispatch table registered for a state's identity, that
  is the six functions that the state's header declares under the state's own name.
  It stands for the init functions of the states whose C files are absent; the two
  init functions that are present fill their structures in just this way.
\<close>

definition dispatch_table :: "state_name \<Rightarrow> LLFSMState" where
  "dispatch_table n =
     \<lparr>check_transitions = Check_transitions n,
      on_entry = Action n On_entry,
      on_exit = Action n On_exit,
      internal = Action n Internal,
      on_suspend = Action n On_suspend,
      on_resume = Action n On_resume\<rparr>"

text \<open>
  A machine as allocated, before \<^verbatim>\<open>fsm_counterc_init\<close>: the state array is wired to
  the addresses 10 to 14, the other fields hold whatever was in memory. Its single
  variable counts the actions run so far.
\<close>

definition raw_machine :: "nat Machine_CounterC" where
  "raw_machine =
     \<lparr>current_state = NULL, previous_state = Some 13, state_time = 7,
      suspend_state = NULL, resume_state = Some 11,
      states = [Some 10, Some 11, Some 12, Some 13, Some 14], variables = 0\<rparr>"

definition example_machine :: "nat Machine_CounterC" where
  "example_machine = fsm_counterc_init raw_machine"

text \<open>
  Modelled from the spec: a wiring of the state table, which is set by code that is
  not among the sources and is therefore not known. In this one the state
  structures behind the addresses 10 to 14 are \<open>Initial\<close>, \<open>InitialPseudoState\<close>,
  \<open>CountUp\<close>, \<open>Print\<close>, \<open>SUSPENDED\<close>; the two states whose C files are among the
  sources are initialised by their own functions.
\<close>

definition example_store :: store where
  "example_store a =
     (if a = 10 then Some (fsm_counterc_initial_init (dispatch_table Print))
      else if a = 11 then Some (dispatch_table InitialPseudoState)
      else if a = 12 then Some (fsm_counterc_countup_init (dispatch_table Print))
      else if a = 13 then Some (dispatch_table Print)
      else if a = 14 then Some (dispatch_table SUSPENDED)
      else None)"

text \<open>
  Fragments in which the guard of \<open>Initial\<close> is true and the guard of \<open>CountUp\<close>
  is false, and every action increments the variable.
\<close>

definition example_fragments :: "nat fragments" where
  "example_fragments =
     \<lparr>expr = (\<lambda>s machine. s = Initial),
      transitions = (\<lambda>s. []),
      mm = (\<lambda>s a machine. Suc (variables machine))\<rparr>"

text \<open>
  A \<open>CountUp\<close> structure whose \<^verbatim>\<open>on_entry\<close> pointer was overwritten with the entry
  function of another state, and a store that holds it.
\<close>

definition corrupted_countup :: LLFSMState where
  "corrupted_countup =
     (fsm_counterc_countup_init (dispatch_table Print))\<lparr>on_entry := Action Initial On_entry\<rparr>"

definition corrupted_store :: store where
  "corrupted_store a = (if a = 12 then Some corrupted_countup else example_store a)"

text \<open>
  Fragments in which the states without a C file among the sources have three
  transitions, of which the second and the third guard are both true.
\<close>

definition priority_fragments :: "nat fragments" where
  "priority_fragments =
     example_fragments\<lparr>transitions :=
       (\<lambda>s. [\<lparr>guard = (\<lambda>machine. False), targetState = 0\<rparr>,
             \<lparr>guard = (\<lambda>machine. True), targetState = 2\<rparr>,
             \<lparr>guard = (\<lambda>machine. True), targetState = 4\<rparr>])\<rparr>"




section \<open>Auxiliary facts about the engine\<close>

text \<open>Actions update the variables only; the engine's own fields are untouched.\<close>

lemma call_action_engine_fields:
  "current_state (call_action f a m) = current_state m"
  "previous_state (call_action f a m) = previous_state m"
  "state_time (call_action f a m) = state_time m"
  "suspend_state (call_action f a m) = suspend_state m"
  "resume_state (call_action f a m) = resume_state m"
  "states (call_action f a m) = states m"
  by (cases a; simp)+

lemma step_stay_fields:
  "fst (step_stay f s r) = None"
  "current_state (fst (snd (step_stay f s r))) = current_state (fst r)"
  "previous_state (fst (snd (step_stay f s r))) = previous_state (fst r)"
  "state_time (fst (snd (step_stay f s r))) = state_time (fst r) + 1"
  "suspend_state (fst (snd (step_stay f s r))) = suspend_state (fst r)"
  "resume_state (fst (snd (step_stay f s r))) = resume_state (fst r)"
  "states (fst (snd (step_stay f s r))) = states (fst r)"
  "snd (snd (step_stay f s r)) = snd r @ [internal s]"
  by (simp_all add: step_stay_def Let_def call_action_engine_fields)

lemma step_fire_fields:
  "current_state (fst (snd (step_fire f h s q r))) = Some q"
  "previous_state (fst (snd (step_fire f h s q r))) = current_state (fst r)"
  "state_time (fst (snd (step_fire f h s q r))) = 0"
  "suspend_state (fst (snd (step_fire f h s q r))) = suspend_state (fst r)"
  "resume_state (fst (snd (step_fire f h s q r))) = resume_state (fst r)"
  "states (fst (snd (step_fire f h s q r))) = states (fst r)"
  by (simp_all add: step_fire_def Let_def call_action_engine_fields split: option.split)

text \<open>The four ways a tick can go.\<close>

lemma step_disj:
  "(step f h r = (None, r) \<and> resume_state (fst r) \<noteq> NULL) \<or>
   (step f h r = (Some NullState, r) \<and> resume_state (fst r) = NULL) \<or>
   (\<exists>p s. resume_state (fst r) = NULL \<and> current_state (fst r) = Some p \<and> h p = Some s \<and>
      step f h r = step_stay f s r) \<or>
   (\<exists>p s q. resume_state (fst r) = NULL \<and> current_state (fst r) = Some p \<and> h p = Some s \<and>
      call_check f (check_transitions s) (fst r) = Some q \<and> q \<noteq> p \<and>
      step f h r = step_fire f h s q r)"
  by (simp add: step_def split: option.split)

lemma step_cases:
  obtains (idle) "step f h r = (None, r)" and "resume_state (fst r) \<noteq> NULL"
  | (fault) "step f h r = (Some NullState, r)" and "resume_state (fst r) = NULL"
  | (stay) p s where "resume_state (fst r) = NULL" and "current_state (fst r) = Some p"
      and "h p = Some s" and "step f h r = step_stay f s r"
  | (fire) p s q where "resume_state (fst r) = NULL" and "current_state (fst r) = Some p"
      and "h p = Some s" and "call_check f (check_transitions s) (fst r) = Some q"
      and "q \<noteq> p" and "step f h r = step_fire f h s q r"
  using step_disj [of f h r] by (elim disjE conjE exE) (blast intro: that)+

lemma step_resume_state:
  "resume_state (fst (snd (step f h r))) = resume_state (fst r)"
  by (cases rule: step_cases [of f h r]) (simp_all add: step_stay_fields step_fire_fields)


lemma run_steps_resume_state:
  "resume_state (fst (snd (run_steps n f h r))) = resume_state (fst r)"
proof (induction n arbitrary: r)
  case 0
  show ?case by simp
next
  case (Suc n)
  obtain e r' where st: "step f h r = (e, r')"
    by (cases "step f h r")
  have keep: "resume_state (fst r') = resume_state (fst r)"
    using step_resume_state [of f h r] st by simp
  show ?case
  proof (cases e)
    case None
    with st Suc.IH [of r'] keep show ?thesis by simp
  next
    case (Some x)
    with st keep show ?thesis by simp
  qed
qed


lemma word_succ_less: "(w :: 64 word) \<noteq> - 1 \<Longrightarrow> w < w + 1"
  by (metis inc_less_eq_triv_imp linorder_less_linear word_le_less_eq)

lemma example_machine_eq:
  "example_machine =
     \<lparr>current_state = Some 10, previous_state = NULL, state_time = 0,
      suspend_state = Some 14, resume_state = NULL,
      states = [Some 10, Some 11, Some 12, Some 13, Some 14], variables = 0\<rparr>"
  by (simp add: example_machine_def fsm_counterc_init_def raw_machine_def)

section \<open>Validation\<close>

text \<open>
  C1: \<open>validate\<close> should return false on any mismatch in any state's dispatch
  table. \<^verbatim>\<open>fsm_counterc_validate\<close> looks at \<^verbatim>\<open>current_state\<close> only, and is true
  exactly when that pointer is not \<^verbatim>\<open>NULL\<close>: on an
  initialised machine whose \<open>CountUp\<close> structure (the one behind \<^verbatim>\<open>states[2]\<close>)
  carries the entry function of another state, it returns true, although the
  validator of that state, \<^verbatim>\<open>fsm_counterc_countup_validate\<close>, rejects the structure.
\<close>

theorem fsm_counterc_validate_ignores_states:
  "(fsm_counterc_validate machine \<longleftrightarrow> current_state machine \<noteq> NULL) \<and>
   fsm_counterc_validate example_machine \<and>
   states example_machine ! 2 = Some 12 \<and>
   corrupted_store 12 = Some corrupted_countup \<and>
   on_entry corrupted_countup = Action Initial On_entry \<and>
   \<not> fsm_counterc_countup_validate example_machine corrupted_countup"
  by (simp add: fsm_counterc_validate_def fsm_counterc_countup_validate_def example_machine_eq
      corrupted_store_def corrupted_countup_def)

section \<open>Initialisation\<close>

text \<open>
  C4: after \<^verbatim>\<open>fsm_counterc_init\<close> the current state is \<^verbatim>\<open>states[0]\<close>, the previous
  state is none, the state time is 0 and the resume state is none; the state array
  is untouched, and the resume state is still none after \<^verbatim>\<open>RESTART\<close> and after any
  number of ticks (it is set by \<open>suspend\<close> only).
\<close>

theorem fsm_counterc_init_fresh:
  "current_state (fsm_counterc_init machine) = states machine ! 0 \<and>
   previous_state (fsm_counterc_init machine) = NULL \<and>
   state_time (fsm_counterc_init machine) = 0 \<and>
   resume_state (fsm_counterc_init machine) = NULL \<and>
   states (fsm_counterc_init machine) = states machine \<and>
   resume_state (snd (RESTART (fsm_counterc_init machine))) = NULL \<and>
   resume_state (fst (snd (run_steps n f h (fsm_counterc_init machine, log)))) = NULL"
  by (simp add: run_steps_resume_state) (simp add: fsm_counterc_init_def RESTART_def Let_def)

section \<open>The macros\<close>

text \<open>
  C5: the \<^verbatim>\<open>GET_TIME()\<close> macro evaluates to \<^verbatim>\<open>state_time + 1\<close>: one more than the
  logical tick counter of the machine, whatever the machine, in the unsigned
  arithmetic of \<^verbatim>\<open>uintptr_t\<close>; it reads no other field, so no clock.
\<close>

theorem GET_TIME_is_state_time_plus_one:
  "GET_TIME machine = state_time machine + 1 \<and>
   unat (GET_TIME machine) = (unat (state_time machine) + 1) mod 2 ^ 64 \<and>
   GET_TIME (machine\<lparr>current_state := c, previous_state := p, suspend_state := s,
                     resume_state := r, states := ss, variables := v\<rparr>) = GET_TIME machine"
  by (simp add: GET_TIME_def unat_word_ariths)

text \<open>
  C9: on a machine whose current state is not \<^verbatim>\<open>NULL\<close>, \<^verbatim>\<open>RESTART(m)\<close> sets
  \<^verbatim>\<open>previous_state\<close> to the old \<^verbatim>\<open>current_state\<close> and \<^verbatim>\<open>current_state\<close> to
  \<^verbatim>\<open>states[0]\<close> and changes nothing else: the state time is not reset, the
  suspend and resume states, the state array and the variables are as before, and
  no action runs (the macro calls nothing). Its value is whether \<^verbatim>\<open>states[0]\<close> is
  non-null.
\<close>

theorem RESTART_frame:
  assumes "current_state m \<noteq> NULL"
  shows "snd (RESTART m) = m\<lparr>previous_state := current_state m, current_state := states m ! 0\<rparr> \<and>
         state_time (snd (RESTART m)) = state_time m \<and>
         suspend_state (snd (RESTART m)) = suspend_state m \<and>
         resume_state (snd (RESTART m)) = resume_state m \<and>
         states (snd (RESTART m)) = states m \<and>
         variables (snd (RESTART m)) = variables m \<and>
         fst (RESTART m) = (states m ! 0 \<noteq> NULL)"
  using assms by (simp add: RESTART_def Let_def)

theorem RESTART_frame_witness:
  "current_state (example_machine\<lparr>current_state := Some 12, state_time := 5\<rparr>) \<noteq> NULL \<and>
   snd (RESTART (example_machine\<lparr>current_state := Some 12, state_time := 5\<rparr>)) =
     example_machine\<lparr>current_state := Some 10, previous_state := Some 12, state_time := 5\<rparr>"
  using RESTART_frame [of "example_machine\<lparr>current_state := Some 12, state_time := 5\<rparr>"]
  by (simp add: example_machine_eq)

text \<open>
  When the current state is \<^verbatim>\<open>NULL\<close>, as in a machine that was never initialised,
  the \<^verbatim>\<open>&&\<close> of the macro stops after its left operand: \<^verbatim>\<open>current_state\<close> is not
  set to \<^verbatim>\<open>states[0]\<close>.
\<close>

theorem RESTART_null_current_state:
  "current_state raw_machine = NULL \<and>
   states raw_machine ! 0 = Some 10 \<and>
   current_state (snd (RESTART raw_machine)) = NULL \<and>
   current_state (snd (RESTART raw_machine)) \<noteq> states raw_machine ! 0"
  by (simp add: RESTART_def raw_machine_def)

section \<open>State-time bookkeeping\<close>

lemma step_state_time_exact:
  "state_time (fst (snd (step f h r))) =
     (if current_state (fst (snd (step f h r))) \<noteq> current_state (fst r) then 0
      else if resume_state (fst r) = NULL \<and> fst (step f h r) = None
        then state_time (fst r) + 1
      else state_time (fst r))"
proof (cases rule: step_cases [of f h r])
  case idle
  then show ?thesis by simp
next
  case fault
  then show ?thesis by simp
next
  case (stay p s)
  then show ?thesis by (simp add: step_stay_fields)
next
  case (fire p s q)
  then show ?thesis by (simp add: step_fire_fields)
qed

lemma step_stay_log:
  assumes "current_state (fst (snd (step f h r))) = current_state (fst r)"
    and "resume_state (fst r) = NULL" and "fst (step f h r) = None"
  shows "\<exists>p s. current_state (fst r) = Some p \<and> h p = Some s \<and>
           snd (snd (step f h r)) = snd r @ [internal s]"
  using assms
  by (cases rule: step_cases [of f h r]) (simp_all add: step_stay_fields step_fire_fields)

lemma suspend_state_time_exact:
  "state_time (fst (snd (suspend f h r))) =
     (if resume_state (fst r) = NULL \<and> fst (suspend f h r) = None then 0
      else state_time (fst r))"
  by (auto simp: suspend_def Let_def call_action_engine_fields split: option.splits)

lemma suspend_changes_only_on_success:
  "current_state (fst (snd (suspend f h r))) \<noteq> current_state (fst r) \<Longrightarrow>
   resume_state (fst r) = NULL \<and> fst (suspend f h r) = None"
  by (auto simp: suspend_def Let_def call_action_engine_fields split: option.splits if_splits)

lemma resume_state_time_exact:
  "state_time (fst (snd (resume f h r))) =
     (if resume_state (fst r) = NULL then state_time (fst r) else 0)"
  by (auto simp: resume_def Let_def call_action_engine_fields split: option.splits)

lemma resume_changes_only_on_success:
  "current_state (fst (snd (resume f h r))) \<noteq> current_state (fst r) \<Longrightarrow>
   resume_state (fst r) \<noteq> NULL"
  by (auto simp: resume_def Let_def call_action_engine_fields split: option.splits)

text \<open>
  C3: \<^verbatim>\<open>fsm_counterc_init\<close> sets the state time to 0, and whenever \<open>step\<close>,
  \<open>suspend\<close> or \<open>resume\<close> changes the current state, the state time is 0 afterwards;
  \<^verbatim>\<open>RESTART\<close> leaves the state time as it is. The state time after a tick is given
  exactly: 0 if the current state changed; one more than before, in \<^verbatim>\<open>uintptr_t\<close>
  arithmetic, if the tick ran on a machine that is not suspended and reported no
  error; unchanged otherwise. So within a state the state time changes only by
  that increment, which comes with exactly one call through the \<^verbatim>\<open>internal\<close>
  pointer of the current state, and it does not decrease over a tick unless it was
  the largest \<^verbatim>\<open>uintptr_t\<close>. The state time after \<open>suspend\<close> is 0 if it took effect
  and unchanged otherwise, and after \<open>resume\<close> it is 0 unless the machine was not
  suspended, whether or not the current state changed.
\<close>

theorem state_time_bookkeeping:
  "state_time (fsm_counterc_init machine) = 0 \<and>
   state_time (snd (RESTART machine)) = state_time machine \<and>
   state_time (fst (snd (step f h r))) =
     (if current_state (fst (snd (step f h r))) \<noteq> current_state (fst r) then 0
      else if resume_state (fst r) = NULL \<and> fst (step f h r) = None
        then state_time (fst r) + 1
      else state_time (fst r)) \<and>
   (current_state (fst (snd (step f h r))) = current_state (fst r) \<and>
    state_time (fst (snd (step f h r))) \<noteq> state_time (fst r) \<longrightarrow>
      state_time (fst (snd (step f h r))) = state_time (fst r) + 1 \<and>
      (\<exists>p s. current_state (fst r) = Some p \<and> h p = Some s \<and>
         snd (snd (step f h r)) = snd r @ [internal s])) \<and>
   (current_state (fst (snd (step f h r))) = current_state (fst r) \<and>
    state_time (fst r) \<noteq> - 1 \<longrightarrow>
      state_time (fst r) \<le> state_time (fst (snd (step f h r)))) \<and>
   state_time (fst (snd (suspend f h r))) =
     (if resume_state (fst r) = NULL \<and> fst (suspend f h r) = None then 0
      else state_time (fst r)) \<and>
   state_time (fst (snd (resume f h r))) =
     (if resume_state (fst r) = NULL then state_time (fst r) else 0) \<and>
   (current_state (fst (snd (suspend f h r))) \<noteq> current_state (fst r) \<longrightarrow>
      state_time (fst (snd (suspend f h r))) = 0) \<and>
   (current_state (fst (snd (resume f h r))) \<noteq> current_state (fst r) \<longrightarrow>
      state_time (fst (snd (resume f h r))) = 0)"
proof -
  have init: "state_time (fsm_counterc_init machine) = 0"
    by (simp add: fsm_counterc_init_def)
  have restart: "state_time (snd (RESTART machine)) = state_time machine"
    by (simp add: RESTART_def Let_def)
  note exact = step_state_time_exact [of f h r]
  have grew: "current_state (fst (snd (step f h r))) = current_state (fst r) \<and>
      state_time (fst (snd (step f h r))) \<noteq> state_time (fst r) \<longrightarrow>
      state_time (fst (snd (step f h r))) = state_time (fst r) + 1 \<and>
      (\<exists>p s. current_state (fst r) = Some p \<and> h p = Some s \<and>
         snd (snd (step f h r)) = snd r @ [internal s])"
  proof (intro impI, elim conjE)
    assume same: "current_state (fst (snd (step f h r))) = current_state (fst r)"
      and diff: "state_time (fst (snd (step f h r))) \<noteq> state_time (fst r)"
    have run: "resume_state (fst r) = NULL \<and> fst (step f h r) = None"
      using exact same diff by (auto split: if_splits)
    then show "state_time (fst (snd (step f h r))) = state_time (fst r) + 1 \<and>
      (\<exists>p s. current_state (fst r) = Some p \<and> h p = Some s \<and>
         snd (snd (step f h r)) = snd r @ [internal s])"
      using exact same step_stay_log [of f h r] by simp
  qed
  have mono: "current_state (fst (snd (step f h r))) = current_state (fst r) \<and>
      state_time (fst r) \<noteq> - 1 \<longrightarrow>
      state_time (fst r) \<le> state_time (fst (snd (step f h r)))"
  proof (intro impI, elim conjE)
    assume same: "current_state (fst (snd (step f h r))) = current_state (fst r)"
      and top: "state_time (fst r) \<noteq> - 1"
    show "state_time (fst r) \<le> state_time (fst (snd (step f h r)))"
      using exact same word_succ_less [OF top] by (auto split: if_splits)
  qed
  note sus_exact = suspend_state_time_exact [of f h r]
  note res_exact = resume_state_time_exact [of f h r]
  have sus: "current_state (fst (snd (suspend f h r))) \<noteq> current_state (fst r) \<longrightarrow>
      state_time (fst (snd (suspend f h r))) = 0"
    using suspend_changes_only_on_success [of f h r] sus_exact by auto
  have res: "current_state (fst (snd (resume f h r))) \<noteq> current_state (fst r) \<longrightarrow>
      state_time (fst (snd (resume f h r))) = 0"
    using resume_changes_only_on_success [of f h r] res_exact by auto
  show ?thesis
    by (intro conjI) (fact init restart exact grew mono sus_exact res_exact sus res)+
qed

theorem state_time_bookkeeping_witness:
  "current_state (fst (snd (step example_fragments example_store
      (example_machine\<lparr>state_time := 5\<rparr>, [])))) = Some 12 \<and>
   state_time (fst (snd (step example_fragments example_store
      (example_machine\<lparr>state_time := 5\<rparr>, [])))) = 0 \<and>
   current_state (fst (snd (suspend example_fragments example_store
      (example_machine\<lparr>state_time := 5\<rparr>, [])))) = Some 14 \<and>
   state_time (fst (snd (suspend example_fragments example_store
      (example_machine\<lparr>state_time := 5\<rparr>, [])))) = 0 \<and>
   current_state (fst (snd (resume example_fragments example_store
      (example_machine\<lparr>current_state := Some 14, resume_state := Some 12, state_time := 5\<rparr>,
       [])))) = Some 12 \<and>
   state_time (fst (snd (resume example_fragments example_store
      (example_machine\<lparr>current_state := Some 14, resume_state := Some 12, state_time := 5\<rparr>,
       [])))) = 0 \<and>
   current_state (fst (snd (step example_fragments example_store
      (example_machine\<lparr>current_state := Some 12, state_time := 5\<rparr>, [])))) = Some 12 \<and>
   state_time (fst (snd (step example_fragments example_store
      (example_machine\<lparr>current_state := Some 12, state_time := 5\<rparr>, [])))) = 6 \<and>
   snd (snd (step example_fragments example_store
      (example_machine\<lparr>current_state := Some 12, state_time := 5\<rparr>, []))) =
     [Action CountUp Internal]"
proof -
  let ?f = example_fragments and ?h = example_store
  let ?r1 = "(example_machine\<lparr>state_time := 5\<rparr>, [] :: action_fn list)"
  let ?r2 = "(example_machine\<lparr>current_state := Some 14, resume_state := Some 12,
                state_time := 5\<rparr>, [] :: action_fn list)"
  let ?r3 = "(example_machine\<lparr>current_state := Some 12, state_time := 5\<rparr>,
              [] :: action_fn list)"
  note T1 = state_time_bookkeeping [of raw_machine ?f ?h ?r1]
  note T2 = state_time_bookkeeping [of raw_machine ?f ?h ?r2]
  note T3 = state_time_bookkeeping [of raw_machine ?f ?h ?r3]
  have c1: "current_state (fst (snd (step ?f ?h ?r1))) = Some 12"
    by (simp add: step_def step_fire_def Let_def example_machine_eq example_store_def
        example_fragments_def fsm_counterc_initial_init_def fsm_counterc_countup_init_def
        fsm_counterc_initial_check_transitions_def)
  have c2: "current_state (fst (snd (suspend ?f ?h ?r1))) = Some 14"
    by (simp add: suspend_def Let_def example_machine_eq example_store_def
        fsm_counterc_initial_init_def)
  have c3: "current_state (fst (snd (resume ?f ?h ?r2))) = Some 12"
    by (simp add: resume_def Let_def example_machine_eq example_store_def
        fsm_counterc_countup_init_def)
  have c4: "current_state (fst (snd (step ?f ?h ?r3))) = Some 12"
    and e4: "fst (step ?f ?h ?r3) = None"
    by (simp_all add: step_def step_stay_def Let_def example_machine_eq example_store_def
        example_fragments_def fsm_counterc_countup_init_def
        fsm_counterc_countup_check_transitions_def)
  have before: "current_state (fst ?r1) = Some 10" "current_state (fst ?r2) = Some 14"
    "current_state (fst ?r3) = Some 12" "resume_state (fst ?r3) = NULL"
    "state_time (fst ?r3) = 5"
    by (simp_all add: example_machine_eq)
  have t1: "state_time (fst (snd (step ?f ?h ?r1))) = 0"
    using T1 [THEN conjunct2, THEN conjunct2, THEN conjunct1] c1 before(1) by simp
  have t2: "state_time (fst (snd (suspend ?f ?h ?r1))) = 0"
    using T1 [THEN conjunct2, THEN conjunct2, THEN conjunct2, THEN conjunct2, THEN conjunct2,
        THEN conjunct2, THEN conjunct2, THEN conjunct1] c2 before(1)
    by simp
  have t3: "state_time (fst (snd (resume ?f ?h ?r2))) = 0"
    using T2 [THEN conjunct2, THEN conjunct2, THEN conjunct2, THEN conjunct2, THEN conjunct2,
        THEN conjunct2, THEN conjunct2, THEN conjunct2] c3 before(2)
    by simp
  have t4: "state_time (fst (snd (step ?f ?h ?r3))) = 6"
    using T3 [THEN conjunct2, THEN conjunct2, THEN conjunct1] c4 e4 before(3,4,5) by simp
  have "\<exists>p s. current_state (fst ?r3) = Some p \<and> ?h p = Some s \<and>
      snd (snd (step ?f ?h ?r3)) = snd ?r3 @ [internal s]"
    using T3 [THEN conjunct2, THEN conjunct2, THEN conjunct2, THEN conjunct1] c4 t4 before(3,5)
    by simp
  then have l4: "snd (snd (step ?f ?h ?r3)) = [Action CountUp Internal]"
    by (auto simp: example_machine_eq example_store_def fsm_counterc_countup_init_def)
  show ?thesis
    using c1 t1 c2 t2 c3 t3 c4 t4 l4 by (intro conjI)
qed

text \<open>
  Three machines on which the state time is not reset by a change of state, or
  decreases within a state. \<^verbatim>\<open>RESTART\<close> after five ticks in the state behind
  \<^verbatim>\<open>states[2]\<close> changes the current state to \<^verbatim>\<open>states[0]\<close> and leaves the state time
  at 5. \<open>suspend\<close> on a machine that has spent five ticks in its suspend state keeps
  the current state and drops the state time to 0. A tick at the largest state time
  keeps the current state, runs the internal action, and wraps the state time to 0.
\<close>

theorem state_time_counterexamples:
  "current_state (example_machine\<lparr>current_state := Some 12, state_time := 5\<rparr>) = Some 12 \<and>
   current_state (snd (RESTART (example_machine\<lparr>current_state := Some 12, state_time := 5\<rparr>))) =
     Some 10 \<and>
   state_time (snd (RESTART (example_machine\<lparr>current_state := Some 12, state_time := 5\<rparr>))) = 5 \<and>
   current_state (fst (snd (suspend example_fragments example_store
      (example_machine\<lparr>current_state := Some 14, state_time := 5\<rparr>, [])))) = Some 14 \<and>
   state_time (fst (snd (suspend example_fragments example_store
      (example_machine\<lparr>current_state := Some 14, state_time := 5\<rparr>, [])))) = 0 \<and>
   current_state (fst (snd (step example_fragments example_store
      (example_machine\<lparr>current_state := Some 12, state_time := - 1\<rparr>, [])))) = Some 12 \<and>
   fst (step example_fragments example_store
      (example_machine\<lparr>current_state := Some 12, state_time := - 1\<rparr>, [])) = None \<and>
   state_time (fst (snd (step example_fragments example_store
      (example_machine\<lparr>current_state := Some 12, state_time := - 1\<rparr>, [])))) = 0"
proof -
  have restart: "RESTART (example_machine\<lparr>current_state := Some 12, state_time := 5\<rparr>) =
      (True, example_machine\<lparr>current_state := Some 10, previous_state := Some 12,
               state_time := 5\<rparr>)"
    by (simp add: RESTART_def example_machine_eq)
  have sus: "suspend example_fragments example_store
      (example_machine\<lparr>current_state := Some 14, state_time := 5\<rparr>, []) =
      (None, (example_machine\<lparr>current_state := Some 14, resume_state := Some 14,
                state_time := 0, variables := 1\<rparr>, [Action SUSPENDED On_suspend]))"
    by (simp add: suspend_def Let_def example_machine_eq example_store_def
        example_fragments_def dispatch_table_def)
  have wrap: "step example_fragments example_store
      (example_machine\<lparr>current_state := Some 12, state_time := - 1\<rparr>, []) =
      (None, (example_machine\<lparr>current_state := Some 12, state_time := 0, variables := 1\<rparr>,
              [Action CountUp Internal]))"
    by (simp add: step_def step_stay_def Let_def example_machine_eq example_store_def
        example_fragments_def fsm_counterc_countup_init_def
        fsm_counterc_countup_check_transitions_def)
  show ?thesis
    unfolding restart sus wrap by (simp add: example_machine_eq)
qed

section \<open>Transition priority\<close>

lemma checkTransitions_None_iff:
  "checkTransitions ts machine = None \<longleftrightarrow> (\<forall>i<length ts. \<not> guard (ts ! i) machine)"
proof (induction ts)
  case Nil
  show ?case by simp
next
  case (Cons t ts)
  show ?case
  proof (cases "guard t machine")
    case True
    then show ?thesis by auto
  next
    case False
    have "(\<forall>i<length (t # ts). \<not> guard ((t # ts) ! i) machine) \<longleftrightarrow>
          (\<forall>i<length ts. \<not> guard (ts ! i) machine)"
      using False by (auto simp: nth_Cons split: nat.splits)
    with False Cons.IH show ?thesis by simp
  qed
qed

lemma checkTransitions_first:
  "i < length ts \<Longrightarrow> guard (ts ! i) machine \<Longrightarrow> \<forall>k<i. \<not> guard (ts ! k) machine \<Longrightarrow>
   checkTransitions ts machine = Some (targetState (ts ! i))"
proof (induction ts arbitrary: i)
  case Nil
  then show ?case by simp
next
  case (Cons t ts)
  show ?case
  proof (cases i)
    case 0
    with Cons.prems show ?thesis by simp
  next
    case (Suc j)
    have "\<not> guard t machine"
      using Cons.prems(3) Suc by auto
    moreover have "checkTransitions ts machine = Some (targetState (ts ! j))"
    proof (rule Cons.IH)
      show "j < length ts" using Cons.prems(1) Suc by simp
      show "guard (ts ! j) machine" using Cons.prems(2) Suc by simp
      show "\<forall>k<j. \<not> guard (ts ! k) machine"
        using Cons.prems(3) Suc by auto
    qed
    ultimately show ?thesis using Suc by simp
  qed
qed

lemma call_check_scan:
  "states_array_ok machine \<Longrightarrow>
   call_check f (Check_transitions n) machine =
     target_ptr machine (checkTransitions (transitions_of f n) machine)"
  by (cases n)
    (simp_all add: states_array_ok_def MACHINE_COUNTERC_NUMBER_OF_STATES_def target_ptr_def
      fsm_counterc_initial_check_transitions_def fsm_counterc_countup_check_transitions_def)

lemma step_single_transition:
  "current_state (fst (snd (step f h r))) = current_state (fst r) \<or>
   (\<exists>p s q. current_state (fst r) = Some p \<and> h p = Some s \<and>
      call_check f (check_transitions s) (fst r) = Some q \<and>
      current_state (fst (snd (step f h r))) = Some q \<and>
      previous_state (fst (snd (step f h r))) = Some p \<and>
      snd (snd (step f h r)) =
        snd r @ on_exit s # (case h q of None \<Rightarrow> [] | Some s' \<Rightarrow> [on_entry s']))"
proof (cases rule: step_cases [of f h r])
  case idle
  then show ?thesis by simp
next
  case fault
  then show ?thesis by simp
next
  case (stay p s)
  then show ?thesis by (simp add: step_stay_fields)
next
  case (fire p s q)
  have "snd (snd (step_fire f h s q r)) =
      snd r @ on_exit s # (case h q of None \<Rightarrow> [] | Some s' \<Rightarrow> [on_entry s'])"
    by (simp add: step_fire_def Let_def split: option.split)
  with fire show ?thesis by (simp add: step_fire_fields)
qed

text \<open>
  C2: the scan of a transition list returns none exactly when every guard is false,
  and otherwise the target of the lowest-indexed transition whose guard is true,
  whatever the guards after it say. Every \<^verbatim>\<open>check_transitions\<close> function of the
  machine, the two C functions of \<open>Initial\<close> and \<open>CountUp\<close> included, is this scan
  of the state's list. A tick that changes the current state changes it once: to the
  state that the single scan of the current state returned, with the old state as
  previous state and one exit action followed by one entry action in the log.
\<close>

theorem lowest_true_guard_fires:
  "(checkTransitions ts machine = None \<longleftrightarrow> (\<forall>i<length ts. \<not> guard (ts ! i) machine)) \<and>
   (\<forall>i<length ts. guard (ts ! i) machine \<and> (\<forall>k<i. \<not> guard (ts ! k) machine) \<longrightarrow>
      checkTransitions ts machine = Some (targetState (ts ! i))) \<and>
   (states_array_ok machine \<longrightarrow>
      call_check f (Check_transitions n) machine =
        target_ptr machine (checkTransitions (transitions_of f n) machine)) \<and>
   (current_state (fst (snd (step f h r))) = current_state (fst r) \<or>
    (\<exists>p s q. current_state (fst r) = Some p \<and> h p = Some s \<and>
       call_check f (check_transitions s) (fst r) = Some q \<and>
       current_state (fst (snd (step f h r))) = Some q \<and>
       previous_state (fst (snd (step f h r))) = Some p \<and>
       snd (snd (step f h r)) =
         snd r @ on_exit s # (case h q of None \<Rightarrow> [] | Some s' \<Rightarrow> [on_entry s'])))"
  using checkTransitions_None_iff [of ts machine] checkTransitions_first [of _ ts machine]
    call_check_scan [of machine f n] step_single_transition [of f h r]
  by blast

theorem lowest_true_guard_fires_witness:
  "(1::nat) < length (transitions priority_fragments Print) \<and>
   \<not> guard (transitions priority_fragments Print ! 0) example_machine \<and>
   guard (transitions priority_fragments Print ! 1) example_machine \<and>
   guard (transitions priority_fragments Print ! 2) example_machine \<and>
   checkTransitions (transitions priority_fragments Print) example_machine = Some 2 \<and>
   states_array_ok example_machine \<and>
   call_check priority_fragments (Check_transitions Print) example_machine = Some 12 \<and>
   current_state (fst (snd (step priority_fragments example_store
      (example_machine\<lparr>current_state := Some 13\<rparr>, [])))) = Some 12 \<and>
   snd (snd (step priority_fragments example_store
      (example_machine\<lparr>current_state := Some 13\<rparr>, []))) =
     [Action Print On_exit, Action CountUp On_entry]"
proof -
  let ?r = "(example_machine\<lparr>current_state := Some 13\<rparr>, [])"
  have ex: "example_machine =
      \<lparr>current_state = Some 10, previous_state = NULL, state_time = 0,
       suspend_state = Some 14, resume_state = NULL,
       states = [Some 10, Some 11, Some 12, Some 13, Some 14], variables = 0\<rparr>"
    by (simp add: example_machine_def fsm_counterc_init_def raw_machine_def)
  have ts: "transitions priority_fragments Print =
      [\<lparr>guard = (\<lambda>machine. False), targetState = 0\<rparr>,
       \<lparr>guard = (\<lambda>machine. True), targetState = 2\<rparr>,
       \<lparr>guard = (\<lambda>machine. True), targetState = 4\<rparr>]"
    by (simp add: priority_fragments_def)
  have ok: "states_array_ok example_machine"
    by (simp add: ex states_array_ok_def MACHINE_COUNTERC_NUMBER_OF_STATES_def)
  have changed: "current_state (fst (snd (step priority_fragments example_store ?r))) = Some 12"
    by (simp add: step_def step_fire_def Let_def ex ts example_store_def dispatch_table_def
        target_ptr_def fsm_counterc_countup_init_def)
  show ?thesis
    using lowest_true_guard_fires [of "transitions priority_fragments Print" example_machine
        priority_fragments Print example_store ?r] ok changed
    by (simp add: ts ex example_store_def dispatch_table_def target_ptr_def
        fsm_counterc_countup_init_def)
qed

section \<open>The CounterC scenario\<close>







section \<open>Suspend and resume\<close>

text \<open>
  C7: on a machine with a suspend state that is not suspended and whose current
  state \<open>p\<close> is in the store, \<open>suspend\<close> followed by \<open>resume\<close> succeeds and ends in
  the current state \<open>p\<close> again, not suspended, with state time 0; in between the
  machine is in the suspend state with \<open>p\<close> as resume state. The actions invoked are
  the \<^verbatim>\<open>on_suspend\<close> pointer of the state \<open>p\<close>, then its \<^verbatim>\<open>on_resume\<close> pointer, and no
  other: no exit or entry action, and none of the suspend state.
\<close>

theorem suspend_then_resume:
  assumes "suspend_state machine \<noteq> NULL" and "resume_state machine = NULL"
    and "current_state machine = Some p" and "h p = Some s"
  shows "fst (suspend f h (machine, log)) = None \<and>
         current_state (fst (snd (suspend f h (machine, log)))) = suspend_state machine \<and>
         resume_state (fst (snd (suspend f h (machine, log)))) = Some p \<and>
         snd (snd (suspend f h (machine, log))) = log @ [on_suspend s] \<and>
         fst (resume f h (snd (suspend f h (machine, log)))) = None \<and>
         current_state (fst (snd (resume f h (snd (suspend f h (machine, log)))))) = Some p \<and>
         resume_state (fst (snd (resume f h (snd (suspend f h (machine, log)))))) = NULL \<and>
         state_time (fst (snd (resume f h (snd (suspend f h (machine, log)))))) = 0 \<and>
         snd (snd (resume f h (snd (suspend f h (machine, log))))) =
           log @ [on_suspend s, on_resume s]"
proof -
  obtain m1 where sus: "suspend f h (machine, log) = (None, (m1, log @ [on_suspend s]))"
    and m1: "current_state m1 = suspend_state machine" "resume_state m1 = Some p"
    using assms by (auto simp: suspend_def Let_def call_action_engine_fields)
  have res: "resume f h (m1, log @ [on_suspend s]) =
      (None, (call_action f (on_resume s)
                (m1\<lparr>current_state := Some p, resume_state := NULL, state_time := 0\<rparr>),
              log @ [on_suspend s, on_resume s]))"
    using m1 assms(4) by (simp add: resume_def)
  show ?thesis
    by (simp add: sus res m1 call_action_engine_fields)
qed

theorem suspend_then_resume_witness:
  "suspend_state example_machine \<noteq> NULL \<and> resume_state example_machine = NULL \<and>
   current_state (example_machine\<lparr>current_state := Some 12\<rparr>) = Some 12 \<and>
   example_store 12 = Some (dispatch_table CountUp) \<and>
   current_state (fst (snd (resume example_fragments example_store
     (snd (suspend example_fragments example_store
        (example_machine\<lparr>current_state := Some 12\<rparr>, [])))))) = Some 12 \<and>
   snd (snd (resume example_fragments example_store
     (snd (suspend example_fragments example_store
        (example_machine\<lparr>current_state := Some 12\<rparr>, []))))) =
     [Action CountUp On_suspend, Action CountUp On_resume]"
  using suspend_then_resume [of "example_machine\<lparr>current_state := Some 12\<rparr>" 12 example_store
      "dispatch_table CountUp" example_fragments "[]"]
  by (simp add: example_machine_def fsm_counterc_init_def raw_machine_def example_store_def
      fsm_counterc_countup_init_def dispatch_table_def)

text \<open>
  C8: on a machine whose resume state is none, \<open>resume\<close> reports \<open>InvalidState\<close> and
  returns the machine and the action log exactly as they were: the current state
  and the state time are unchanged and no action ran.
\<close>

theorem resume_not_suspended:
  assumes "resume_state machine = NULL"
  shows "resume f h (machine, log) = (Some InvalidState, (machine, log))"
  using assms by (simp add: resume_def)

theorem resume_not_suspended_witness:
  "resume_state example_machine = NULL \<and>
   resume example_fragments example_store (example_machine, [Action Initial Internal]) =
     (Some InvalidState, (example_machine, [Action Initial Internal]))"
  using resume_not_suspended [of example_machine example_fragments example_store "[Action Initial Internal]"]
  by (simp add: example_machine_def fsm_counterc_init_def)

section \<open>The two representations of the Counter machine\<close>

text \<open>
  C10: the C++ machine reports 5 states and so does the C header; the C++ \<open>CountUp\<close>
  state has one transition, whose target defaults to state 3, and the C
  \<^verbatim>\<open>check_transitions\<close> of \<open>CountUp\<close> has one guard, on which it returns
  \<^verbatim>\<open>machine->states[3]\<close>, and \<^verbatim>\<open>NULL\<close> otherwise.
\<close>

theorem counter_representations_agree:
  "Counter_numberOfStates = 5 \<and>
   int MACHINE_COUNTERC_NUMBER_OF_STATES = Counter_numberOfStates \<and>
   CountUp_numberOfTransitions = 1 \<and>
   CountUp_Transition_0_toState = 3 \<and>
   int (length (transitions_of f CountUp)) = CountUp_numberOfTransitions \<and>
   int (targetState (transitions_of f CountUp ! 0)) = CountUp_Transition_0_toState \<and>
   fsm_counterc_countup_check_transitions e machine =
     (if e machine then states machine ! nat CountUp_Transition_0_toState else NULL)"
  by (simp add: Counter_numberOfStates_def MACHINE_COUNTERC_NUMBER_OF_STATES_def
      CountUp_numberOfTransitions_def CountUp_Transition_0_toState_def
      fsm_counterc_countup_check_transitions_def)

end
